theory Spec2Isabelle
  imports Complex_Main
begin

section \<open>Arithmetic of the renderer\<close>

subsection \<open>The C++ type float\<close>

text \<open>
  Every scalar of the renderer is a C++ \<^verbatim>\<open>float\<close>. The model keeps the special values
  of IEEE 754 (the two infinities and NaN) with their arithmetic and their comparisons,
  because the intersection routines divide without a guard and rely on comparisons to
  sort the outcome. Finite values are idealised: a finite float is the real number it
  denotes, a finite operation is exact (no rounding, no overflow to infinity, no
  underflow to zero), and there is one zero, which as a divisor counts as \<^verbatim>\<open>+0\<close>.
  What is proved below is therefore the control flow and the formulas of the program,
  and its behaviour on the special values; nothing is stated about the length of a
  normalized vector, which in binary32 depends on rounding and on the range of the
  squared norm, nor about a divisor \<^verbatim>\<open>-0\<close>. Equality of the source is never used on
  floats, so HOL equality on \<open>NaN\<close> is harmless.
\<close>

datatype float = Finite real | PInf | NInf | NaN

fun fneg :: "float \<Rightarrow> float" where
  "fneg (Finite a) = Finite (- a)"
| "fneg PInf = NInf"
| "fneg NInf = PInf"
| "fneg NaN = NaN"

fun fadd :: "float \<Rightarrow> float \<Rightarrow> float" where
  "fadd (Finite a) (Finite b) = Finite (a + b)"
| "fadd NaN _ = NaN"
| "fadd _ NaN = NaN"
| "fadd PInf NInf = NaN"
| "fadd NInf PInf = NaN"
| "fadd PInf _ = PInf"
| "fadd _ PInf = PInf"
| "fadd NInf _ = NInf"
| "fadd _ NInf = NInf"

text \<open>The sign of a product or quotient with an infinite operand.\<close>

definition signed_inf :: "bool \<Rightarrow> float" where
  "signed_inf negative = (if negative then NInf else PInf)"

fun fmul :: "float \<Rightarrow> float \<Rightarrow> float" where
  "fmul (Finite a) (Finite b) = Finite (a * b)"
| "fmul NaN _ = NaN"
| "fmul _ NaN = NaN"
| "fmul (Finite a) PInf = (if a = 0 then NaN else signed_inf (a < 0))"
| "fmul (Finite a) NInf = (if a = 0 then NaN else signed_inf (0 < a))"
| "fmul PInf (Finite b) = (if b = 0 then NaN else signed_inf (b < 0))"
| "fmul NInf (Finite b) = (if b = 0 then NaN else signed_inf (0 < b))"
| "fmul PInf PInf = PInf"
| "fmul PInf NInf = NInf"
| "fmul NInf PInf = NInf"
| "fmul NInf NInf = PInf"

fun fdiv :: "float \<Rightarrow> float \<Rightarrow> float" where
  "fdiv (Finite a) (Finite b) =
     (if b \<noteq> 0 then Finite (a / b)
      else if a = 0 then NaN
      else signed_inf (a < 0))"
| "fdiv NaN _ = NaN"
| "fdiv _ NaN = NaN"
| "fdiv (Finite a) PInf = Finite 0"
| "fdiv (Finite a) NInf = Finite 0"
| "fdiv PInf (Finite b) = signed_inf (b < 0)"
| "fdiv NInf (Finite b) = signed_inf (0 \<le> b)"
| "fdiv PInf PInf = NaN"
| "fdiv PInf NInf = NaN"
| "fdiv NInf PInf = NaN"
| "fdiv NInf NInf = NaN"

text \<open>Comparisons: every comparison with NaN is false.\<close>

fun fle :: "float \<Rightarrow> float \<Rightarrow> bool" where
  "fle (Finite a) (Finite b) = (a \<le> b)"
| "fle NaN _ = False"
| "fle _ NaN = False"
| "fle NInf _ = True"
| "fle _ PInf = True"
| "fle _ NInf = False"
| "fle PInf _ = False"

fun flt :: "float \<Rightarrow> float \<Rightarrow> bool" where
  "flt (Finite a) (Finite b) = (a < b)"
| "flt NaN _ = False"
| "flt _ NaN = False"
| "flt PInf _ = False"
| "flt _ NInf = False"
| "flt NInf _ = True"
| "flt _ PInf = True"

fun fabs :: "float \<Rightarrow> float" where
  "fabs (Finite a) = Finite \<bar>a\<bar>"
| "fabs PInf = PInf"
| "fabs NInf = PInf"
| "fabs NaN = NaN"

instantiation float :: "{zero, one, plus, uminus, minus, times, inverse, ord, abs}"
begin

definition zero_float_def: "0 = Finite 0"
definition one_float_def: "1 = Finite 1"
definition plus_float_def: "a + b = fadd a b"
definition uminus_float_def: "- a = fneg a"
definition minus_float_def: "a - b = fadd a (fneg b)"
definition times_float_def: "a * b = fmul a b"
definition divide_float_def: "a div b = fdiv a b"
definition inverse_float_def: "inverse a = fdiv (Finite 1) a"
definition less_eq_float_def: "a \<le> b = fle a b"
definition less_float_def: "a < b = flt a b"
definition abs_float_def: "\<bar>a\<bar> = fabs a"

instance ..

end

text \<open>Decimal and integer literals of the source denote finite floats.\<close>

definition lit :: "real \<Rightarrow> float" where
  "lit r = Finite r"

text \<open>\<^verbatim>\<open>static_cast<float>\<close> of an integer.\<close>

definition float_of_int :: "int \<Rightarrow> float" where
  "float_of_int n = Finite (of_int n)"

text \<open>\<^verbatim>\<open>sqrtf\<close>: NaN below zero.\<close>

fun sqrtf :: "float \<Rightarrow> float" where
  "sqrtf (Finite a) = (if a < 0 then NaN else Finite (sqrt a))"
| "sqrtf PInf = PInf"
| "sqrtf NInf = NaN"
| "sqrtf NaN = NaN"

text \<open>\<^verbatim>\<open>std::max(a, b)\<close> is \<^verbatim>\<open>(a < b) ? b : a\<close> and \<^verbatim>\<open>std::min(a, b)\<close> is
  \<^verbatim>\<open>(b < a) ? b : a\<close>.\<close>

definition std_max :: "float \<Rightarrow> float \<Rightarrow> float" where
  "std_max a b = (if a < b then b else a)"

definition std_min :: "float \<Rightarrow> float \<Rightarrow> float" where
  "std_min a b = (if b < a then b else a)"


subsection \<open>Eigen's Vec3f\<close>

datatype vec3 = Vec3f (vx: float) (vy: float) (vz: float)

instantiation vec3 :: "{zero, plus, uminus, minus}"
begin

definition zero_vec3_def: "0 = Vec3f 0 0 0"
definition plus_vec3_def: "a + b = Vec3f (vx a + vx b) (vy a + vy b) (vz a + vz b)"
definition uminus_vec3_def: "- a = Vec3f (- vx a) (- vy a) (- vz a)"
definition minus_vec3_def: "a - b = Vec3f (vx a - vx b) (vy a - vy b) (vz a - vz b)"

instance ..

end

text \<open>Scalar times vector, vector divided by scalar, and the component-wise product.\<close>

definition smul :: "float \<Rightarrow> vec3 \<Rightarrow> vec3" where
  "smul k a = Vec3f (k * vx a) (k * vy a) (k * vz a)"

definition vscale :: "vec3 \<Rightarrow> float \<Rightarrow> vec3" where
  "vscale a k = Vec3f (vx a * k) (vy a * k) (vz a * k)"

definition sdiv :: "vec3 \<Rightarrow> float \<Rightarrow> vec3" where
  "sdiv a k = Vec3f (vx a / k) (vy a / k) (vz a / k)"

definition cwiseProduct :: "vec3 \<Rightarrow> vec3 \<Rightarrow> vec3" where
  "cwiseProduct a b = Vec3f (vx a * vx b) (vy a * vy b) (vz a * vz b)"

definition dot :: "vec3 \<Rightarrow> vec3 \<Rightarrow> float" where
  "dot a b = vx a * vx b + vy a * vy b + vz a * vz b"

definition cross :: "vec3 \<Rightarrow> vec3 \<Rightarrow> vec3" where
  "cross a b =
     Vec3f (vy a * vz b - vz a * vy b)
           (vz a * vx b - vx a * vz b)
           (vx a * vy b - vy a * vx b)"

definition squaredNorm :: "vec3 \<Rightarrow> float" where
  "squaredNorm a = dot a a"

definition norm3 :: "vec3 \<Rightarrow> float" where
  "norm3 a = sqrtf (squaredNorm a)"

text \<open>
  Eigen's \<^verbatim>\<open>normalized()\<close> divides by the norm when the squared norm is positive and
  returns the vector as it is otherwise.
\<close>

definition normalized :: "vec3 \<Rightarrow> vec3" where
  "normalized a =
     (let n2 = squaredNorm a
      in if 0 < n2 then sdiv a (sqrtf n2) else a)"


section \<open>Rays and hit records\<close>

record ray =
  origin :: vec3
  direction :: vec3
  tMin :: float
  tMax :: float

text \<open>
  Modelled from the spec: \<^verbatim>\<open>Ray::operator()\<close> is declared in a header that is not part
  of the sources; a ray "produces a 3D point for a given parameter t".
\<close>

definition ray_at :: "ray \<Rightarrow> float \<Rightarrow> vec3" where
  "ray_at r t = origin r + smul t (direction r)"

record MatModel =
  Ambient :: vec3
  Diffuse :: vec3
  Specular :: vec3
  Shininess :: float

datatype InterType = GEOMETRY | LIGHT | NONE

record Interaction =
  distance :: float
  position :: vec3
  normal :: vec3
  matmodel :: MatModel
  type :: InterType

text \<open>
  A material is the function \<^verbatim>\<open>material->evaluate(interaction)\<close>; its class is not part
  of the sources, so each primitive carries it as a field.
\<close>

type_synonym Material = "Interaction \<Rightarrow> MatModel"

text \<open>
  The five assignments every primitive makes on a hit, in the order of the source: the
  material is evaluated on the record whose geometric fields are already written.
\<close>

definition populate :: "Interaction \<Rightarrow> float \<Rightarrow> vec3 \<Rightarrow> vec3 \<Rightarrow> Material \<Rightarrow> Interaction" where
  "populate interaction t p n material =
     (let i1 = interaction\<lparr>distance := t\<rparr>;
          i2 = i1\<lparr>position := p\<rparr>;
          i3 = i2\<lparr>normal := n\<rparr>;
          i4 = i3\<lparr>type := GEOMETRY\<rparr>
      in i4\<lparr>matmodel := material i4\<rparr>)"

section \<open>Primitives\<close>

subsection \<open>Triangle\<close>

record Triangle =
  tri_v0 :: vec3
  tri_v1 :: vec3
  tri_v2 :: vec3
  tri_normal :: vec3
  tri_material :: Material

text \<open>\<^verbatim>\<open>Triangle::intersect\<close>, lines 7 to 27 of geometry.cpp.\<close>

definition Triangle_intersect :: "Triangle \<Rightarrow> ray \<Rightarrow> Interaction \<Rightarrow> bool \<times> Interaction" where
  "Triangle_intersect tri r interaction =
     (let orig = origin r; d = direction r;
          tmin = tMin r; tmax = tMax r;
          e1 = tri_v1 tri - tri_v0 tri; e2 = tri_v2 tri - tri_v0 tri;
          s = orig - tri_v0 tri; s1 = cross d e2; s2 = cross s e1;
          ans = smul (1 / dot s1 e1) (Vec3f (dot s2 e2) (dot s1 s) (dot s2 d));
          t = vx ans; u = vy ans; v = vz ans
      in if tmin \<le> t \<and> 0 \<le> u \<and> 0 \<le> v \<and> u + v \<le> 1
         then (True, populate interaction t (ray_at r t) (normalized (tri_normal tri))
                       (tri_material tri))
         else (False, interaction))"

subsection \<open>Rectangle\<close>

record Rectangle =
  rect_position :: vec3
  rect_size :: "float \<times> float"
  rect_normal :: vec3
  rect_tangent :: vec3
  rect_material :: Material

text \<open>
  \<^verbatim>\<open>Rectangle::intersect\<close>, lines 29 to 55 of geometry.cpp. The constant \<^verbatim>\<open>EPS\<close> is
  defined in a header that is not part of the sources; it is a parameter of the model.
\<close>

definition Rectangle_intersect ::
  "float \<Rightarrow> Rectangle \<Rightarrow> ray \<Rightarrow> Interaction \<Rightarrow> bool \<times> Interaction" where
  "Rectangle_intersect EPS rect r interaction =
     (let orig = origin r; d = direction r;
          width = fst (rect_size rect); height = snd (rect_size rect)
      in if \<bar>dot d (rect_normal rect)\<bar> \<le> EPS then (False, interaction)
         else
           (let t = dot (rect_position rect - orig) (rect_normal rect) / dot d (rect_normal rect);
                intersect_point = ray_at r t;
                delta_vec = intersect_point - rect_position rect;
                y_tangent = cross (rect_normal rect) (rect_tangent rect);
                dw = dot delta_vec (normalized (rect_tangent rect));
                dh = dot delta_vec (normalized y_tangent)
            in if 0 \<le> t \<and> - width / lit 2 \<le> dw \<and> dw \<le> width / lit 2
                  \<and> - height / lit 2 \<le> dh \<and> dh \<le> height / lit 2
               then (True, populate interaction t intersect_point
                             (normalized (rect_normal rect)) (rect_material rect))
               else (False, interaction)))"

subsection \<open>Ground\<close>

record Ground =
  ground_z :: float
  ground_material :: Material

text \<open>\<^verbatim>\<open>Ground::intersect\<close>, lines 135 to 148 of geometry.cpp.\<close>

definition Ground_intersect :: "Ground \<Rightarrow> ray \<Rightarrow> Interaction \<Rightarrow> bool \<times> Interaction" where
  "Ground_intersect g r interaction =
     (let t = (ground_z g - vz (origin r)) / vz (direction r)
      in if t < tMin r then (False, interaction)
         else (True, populate interaction t (ray_at r t) (Vec3f (lit 0) (lit 0) (lit 1))
                       (ground_material g)))"

subsection \<open>Ellipsoid\<close>

text \<open>Eigen's Vec4f, Mat4f and Mat3f; a matrix is given by its rows.\<close>

datatype vec4 = Vec4f (wx: float) (wy: float) (wz: float) (ww: float)

datatype mat4 = Mat4f (row4_0: vec4) (row4_1: vec4) (row4_2: vec4) (row4_3: vec4)

datatype mat3 = Mat3f (row3_0: vec3) (row3_1: vec3) (row3_2: vec3)

definition dot4 :: "vec4 \<Rightarrow> vec4 \<Rightarrow> float" where
  "dot4 a b = wx a * wx b + wy a * wy b + wz a * wz b + ww a * ww b"

definition transpose4 :: "mat4 \<Rightarrow> mat4" where
  "transpose4 m =
     Mat4f (Vec4f (wx (row4_0 m)) (wx (row4_1 m)) (wx (row4_2 m)) (wx (row4_3 m)))
           (Vec4f (wy (row4_0 m)) (wy (row4_1 m)) (wy (row4_2 m)) (wy (row4_3 m)))
           (Vec4f (wz (row4_0 m)) (wz (row4_1 m)) (wz (row4_2 m)) (wz (row4_3 m)))
           (Vec4f (ww (row4_0 m)) (ww (row4_1 m)) (ww (row4_2 m)) (ww (row4_3 m)))"

definition mat4_vec :: "mat4 \<Rightarrow> vec4 \<Rightarrow> vec4" where
  "mat4_vec m v = Vec4f (dot4 (row4_0 m) v) (dot4 (row4_1 m) v) (dot4 (row4_2 m) v) (dot4 (row4_3 m) v)"

definition mat4_mul :: "mat4 \<Rightarrow> mat4 \<Rightarrow> mat4" where
  "mat4_mul m n =
     (let nt = transpose4 n
      in Mat4f (mat4_vec nt (row4_0 m)) (mat4_vec nt (row4_1 m))
               (mat4_vec nt (row4_2 m)) (mat4_vec nt (row4_3 m)))"

text \<open>\<^verbatim>\<open>M.block(0, 0, 3, 3)\<close>.\<close>

definition block3 :: "mat4 \<Rightarrow> mat3" where
  "block3 m =
     Mat3f (Vec3f (wx (row4_0 m)) (wy (row4_0 m)) (wz (row4_0 m)))
           (Vec3f (wx (row4_1 m)) (wy (row4_1 m)) (wz (row4_1 m)))
           (Vec3f (wx (row4_2 m)) (wy (row4_2 m)) (wz (row4_2 m)))"

definition transpose3 :: "mat3 \<Rightarrow> mat3" where
  "transpose3 m =
     Mat3f (Vec3f (vx (row3_0 m)) (vx (row3_1 m)) (vx (row3_2 m)))
           (Vec3f (vy (row3_0 m)) (vy (row3_1 m)) (vy (row3_2 m)))
           (Vec3f (vz (row3_0 m)) (vz (row3_1 m)) (vz (row3_2 m)))"

definition mat3_vec :: "mat3 \<Rightarrow> vec3 \<Rightarrow> vec3" where
  "mat3_vec m v = Vec3f (dot (row3_0 m) v) (dot (row3_1 m) v) (dot (row3_2 m) v)"

text \<open>
  Eigen's \<^verbatim>\<open>inverse()\<close> is library code. The model takes the two inversion routines as
  parameters, so that what is proved of the ellipsoid holds for whatever they return,
  also on a singular matrix.
\<close>

record Eigen =
  inverse4 :: "mat4 \<Rightarrow> mat4"
  inverse3 :: "mat3 \<Rightarrow> mat3"

record Ellipsoid =
  ell_p :: vec3
  ell_a :: vec3
  ell_b :: vec3
  ell_c :: vec3
  ell_material :: Material

text \<open>Lines 60 to 74: the matrix \<^verbatim>\<open>M = T * R * S\<close> that maps the unit sphere to the ellipsoid.\<close>

definition Ellipsoid_M :: "Ellipsoid \<Rightarrow> mat4" where
  "Ellipsoid_M e =
     (let p = ell_p e;
          T = Mat4f (Vec4f (lit 1) (lit 0) (lit 0) (vx p))
                    (Vec4f (lit 0) (lit 1) (lit 0) (vy p))
                    (Vec4f (lit 0) (lit 0) (lit 1) (vz p))
                    (Vec4f (lit 0) (lit 0) (lit 0) (lit 1));
          normalized_a = normalized (ell_a e);
          normalized_b = normalized (ell_b e);
          normalized_c = normalized (ell_c e);
          R = Mat4f (Vec4f (vx normalized_a) (vx normalized_b) (vx normalized_c) (lit 0))
                    (Vec4f (vy normalized_a) (vy normalized_b) (vy normalized_c) (lit 0))
                    (Vec4f (vz normalized_a) (vz normalized_b) (vz normalized_c) (lit 0))
                    (Vec4f (lit 0) (lit 0) (lit 0) (lit 1));
          S = Mat4f (Vec4f (norm3 (ell_a e)) (lit 0) (lit 0) (lit 0))
                    (Vec4f (lit 0) (norm3 (ell_b e)) (lit 0) (lit 0))
                    (Vec4f (lit 0) (lit 0) (norm3 (ell_c e)) (lit 0))
                    (Vec4f (lit 0) (lit 0) (lit 0) (lit 1))
      in mat4_mul (mat4_mul T R) S)"

text \<open>Lines 75 to 83: the ray in unit-sphere space, as (origin, direction).\<close>

definition Ellipsoid_transformed :: "Eigen \<Rightarrow> Ellipsoid \<Rightarrow> ray \<Rightarrow> vec3 \<times> vec3" where
  "Ellipsoid_transformed eig e r =
     (let M_inv = inverse4 eig (Ellipsoid_M e);
          origin_4d = Vec4f (vx (origin r)) (vy (origin r)) (vz (origin r)) (lit 1);
          direction_4d = Vec4f (vx (direction r)) (vy (direction r)) (vz (direction r)) (lit 0);
          origin_4d_transformed = mat4_vec M_inv origin_4d;
          direction_4d_transformed = mat4_vec M_inv direction_4d
      in (Vec3f (wx origin_4d_transformed) (wy origin_4d_transformed) (wz origin_4d_transformed),
          Vec3f (wx direction_4d_transformed) (wy direction_4d_transformed)
                (wz direction_4d_transformed)))"

text \<open>Lines 87 to 91: the coefficients of the quadratic and its discriminant.\<close>

definition Ellipsoid_a :: "vec3 \<times> vec3 \<Rightarrow> float" where
  "Ellipsoid_a od = dot (snd od) (snd od)"

definition Ellipsoid_b :: "vec3 \<times> vec3 \<Rightarrow> float" where
  "Ellipsoid_b od = lit 2 * dot (fst od) (snd od)"

definition Ellipsoid_c :: "vec3 \<times> vec3 \<Rightarrow> float" where
  "Ellipsoid_c od = (let radius = lit 1 in dot (fst od) (fst od) - radius * radius)"

definition Ellipsoid_delta :: "vec3 \<times> vec3 \<Rightarrow> float" where
  "Ellipsoid_delta od =
     Ellipsoid_b od * Ellipsoid_b od - lit 4 * Ellipsoid_a od * Ellipsoid_c od"

text \<open>Line 94: the two roots.\<close>

definition Ellipsoid_t1 :: "vec3 \<times> vec3 \<Rightarrow> float" where
  "Ellipsoid_t1 od =
     (- Ellipsoid_b od - sqrtf (Ellipsoid_delta od)) / (lit 2 * Ellipsoid_a od)"

definition Ellipsoid_t2 :: "vec3 \<times> vec3 \<Rightarrow> float" where
  "Ellipsoid_t2 od =
     (- Ellipsoid_b od + sqrtf (Ellipsoid_delta od)) / (lit 2 * Ellipsoid_a od)"

text \<open>Lines 113 to 121: the normal, before it is normalized.\<close>

definition Ellipsoid_normal :: "Eigen \<Rightarrow> Ellipsoid \<Rightarrow> vec3 \<times> vec3 \<Rightarrow> float \<Rightarrow> vec3" where
  "Ellipsoid_normal eig e od t =
     (let M_3 = block3 (Ellipsoid_M e);
          M_inv_transpose = transpose3 (inverse3 eig M_3);
          pos = fst od + smul t (snd od)
      in mat3_vec M_inv_transpose pos)"

text \<open>Lines 109 to 130: the test against \<open>tMin\<close> and the hit.\<close>

definition Ellipsoid_hit ::
  "Eigen \<Rightarrow> Ellipsoid \<Rightarrow> ray \<Rightarrow> Interaction \<Rightarrow> vec3 \<times> vec3 \<Rightarrow> float \<Rightarrow> bool \<times> Interaction" where
  "Ellipsoid_hit eig e r interaction od t =
     (if t < tMin r then (False, interaction)
      else (True, populate interaction t (ray_at r t)
                    (normalized (Ellipsoid_normal eig e od t)) (ell_material e)))"

text \<open>\<^verbatim>\<open>Ellipsoid::intersect\<close>, lines 58 to 133 of geometry.cpp.\<close>

definition Ellipsoid_intersect ::
  "Eigen \<Rightarrow> Ellipsoid \<Rightarrow> ray \<Rightarrow> Interaction \<Rightarrow> bool \<times> Interaction" where
  "Ellipsoid_intersect eig e r interaction =
     (let od = Ellipsoid_transformed eig e r;
          delta = Ellipsoid_delta od
      in if 0 < delta then
           (let t1 = Ellipsoid_t1 od; t2 = Ellipsoid_t2 od
            in if 0 < t1 \<and> 0 < t2 then Ellipsoid_hit eig e r interaction od (std_min t1 t2)
               else if 0 < t1 then Ellipsoid_hit eig e r interaction od t1
               else if 0 < t2 then Ellipsoid_hit eig e r interaction od t2
               else (False, interaction))
         else (False, interaction))"

section \<open>The tracer\<close>

subsection \<open>Scene, light and camera\<close>

text \<open>
  The classes Scene, Light, Camera and Image are declared in headers that are not part
  of the sources. The model holds what the tracer reads from them: the colour of the
  light, its virtual point lights, the ambient light, and the two queries of the scene
  as functions; the resolution of the image and the two generators of the camera.
\<close>

record VPL =
  vpl_position :: vec3
  vpl_color :: vec3

record Scene =
  light_color :: vec3
  light_vpls :: "VPL list"
  ambient_light :: vec3
  isShadowed :: "ray \<Rightarrow> bool"
  scene_intersect :: "ray \<Rightarrow> Interaction \<Rightarrow> bool \<times> Interaction"

record Camera =
  resolution :: "int \<times> int"
  generateSuperSamplingPoint :: "int \<Rightarrow> int \<Rightarrow> int \<Rightarrow> (float \<times> float) list"
  generateRay :: "float \<Rightarrow> float \<Rightarrow> ray"

text \<open>
  What the sources use without defining it: \<^verbatim>\<open>powf\<close> of the C library, the
  two-argument constructor of Ray and the default constructor of Interaction.
\<close>

record Externals =
  powf :: "float \<Rightarrow> float \<Rightarrow> float"
  Ray :: "vec3 \<Rightarrow> vec3 \<Rightarrow> ray"
  new_Interaction :: Interaction

record HypoxRayTracer =
  scene :: Scene
  camera :: Camera
  spp :: int

subsection \<open>evalRadiance\<close>

text \<open>\<^verbatim>\<open>vpls.size()\<close> as a float.\<close>

definition float_of_size :: "nat \<Rightarrow> float" where
  "float_of_size n = Finite (of_nat n)"

text \<open>Lines 21 to 25: the direction to a virtual point light and the shadow ray.\<close>

definition light_dir :: "Interaction \<Rightarrow> VPL \<Rightarrow> vec3" where
  "light_dir interaction vpl = normalized (vpl_position vpl - position interaction)"

definition shadow_ray :: "Externals \<Rightarrow> Interaction \<Rightarrow> VPL \<Rightarrow> ray" where
  "shadow_ray ext interaction vpl =
     Ray ext (position interaction)
             (light_dir interaction vpl + smul (lit 0.01) (normal interaction))"

text \<open>Lines 30 to 43: what one unshadowed light adds to \<^verbatim>\<open>diff\<close> and to \<^verbatim>\<open>spec\<close>.\<close>

definition diff_term :: "ray \<Rightarrow> Interaction \<Rightarrow> nat \<Rightarrow> VPL \<Rightarrow> vec3" where
  "diff_term r interaction n vpl =
     (let diff_factor = std_max (lit 0) (dot (normal interaction) (light_dir interaction vpl))
      in sdiv (vscale (cwiseProduct (Diffuse (matmodel interaction)) (vpl_color vpl)) diff_factor)
              (float_of_size n))"

definition reflect_dir :: "Interaction \<Rightarrow> VPL \<Rightarrow> vec3" where
  "reflect_dir interaction vpl =
     normalized (smul (lit 2 * dot (normal interaction) (light_dir interaction vpl))
                      (normal interaction)
                 - light_dir interaction vpl)"

definition spec_term :: "Externals \<Rightarrow> ray \<Rightarrow> Interaction \<Rightarrow> nat \<Rightarrow> VPL \<Rightarrow> vec3" where
  "spec_term ext r interaction n vpl =
     (let spec_factor = powf ext (std_max (lit 0) (dot (reflect_dir interaction vpl) (- direction r)))
                                 (Shininess (matmodel interaction))
      in sdiv (vscale (cwiseProduct (Specular (matmodel interaction)) (vpl_color vpl)) spec_factor)
              (float_of_size n))"

text \<open>The body of the loop over the lights, on the pair (\<^verbatim>\<open>diff\<close>, \<^verbatim>\<open>spec\<close>).\<close>

definition vpl_step ::
  "Externals \<Rightarrow> Scene \<Rightarrow> ray \<Rightarrow> Interaction \<Rightarrow> nat \<Rightarrow> vec3 \<times> vec3 \<Rightarrow> VPL \<Rightarrow> vec3 \<times> vec3" where
  "vpl_step ext sc r interaction n acc vpl =
     (if isShadowed sc (shadow_ray ext interaction vpl) then acc
      else (fst acc + diff_term r interaction n vpl,
            snd acc + spec_term ext r interaction n vpl))"

text \<open>\<^verbatim>\<open>HypoxRayTracer::evalRadiance\<close>, lines 7 to 48 of HypoxRayTracer.cpp.\<close>

definition evalRadiance :: "Externals \<Rightarrow> Scene \<Rightarrow> ray \<Rightarrow> Interaction \<Rightarrow> vec3" where
  "evalRadiance ext sc r interaction =
     (if type interaction = LIGHT then light_color sc
      else
        (let amb = cwiseProduct (Ambient (matmodel interaction)) (ambient_light sc);
             vpls = light_vpls sc;
             acc = foldl (vpl_step ext sc r interaction (length vpls))
                         (Vec3f (lit 0) (lit 0) (lit 0), Vec3f (lit 0) (lit 0) (lit 0)) vpls
         in amb + fst acc + snd acc))"

subsection \<open>render\<close>

text \<open>
  The image is the log of the calls of \<^verbatim>\<open>setPixel\<close>. Two operations of the loop have
  undefined behaviour on some inputs and are faults of the model: the remainder
  \<^verbatim>\<open>dx % (resolution.x() / 200)\<close> when the quotient is zero, and the product
  \<^verbatim>\<open>spp * spp\<close> of two ints when it leaves the range of int. The progress line is
  not modelled. The columns are independent of each other; the model runs them in
  increasing order.
\<close>

datatype fault = DivisionByZero | SignedOverflow

type_synonym pixel_write = "(int \<times> int) \<times> vec3"

text \<open>Lines 71 to 77: one sample added to \<^verbatim>\<open>color\<close>.\<close>

definition sample_step :: "Externals \<Rightarrow> HypoxRayTracer \<Rightarrow> vec3 \<Rightarrow> float \<times> float \<Rightarrow> vec3" where
  "sample_step ext tracer color sample_point =
     (let r = generateRay (camera tracer) (fst sample_point) (snd sample_point);
          hit = scene_intersect (scene tracer) r (new_Interaction ext)
      in if fst hit then color + evalRadiance ext (scene tracer) r (snd hit) else color)"

text \<open>Lines 66 to 79: one pixel.\<close>

definition render_pixel :: "Externals \<Rightarrow> HypoxRayTracer \<Rightarrow> int \<Rightarrow> int \<Rightarrow> fault + pixel_write" where
  "render_pixel ext tracer dx dy =
     (let sample_points = generateSuperSamplingPoint (camera tracer) dx dy (spp tracer);
          color = foldl (sample_step ext tracer) (Vec3f (lit 0) (lit 0) (lit 0)) sample_points
      in if spp tracer * spp tracer < - (2 ^ 31) \<or> 2 ^ 31 \<le> spp tracer * spp tracer
         then Inl SignedOverflow
         else Inr ((dx, dy), sdiv color (float_of_int (spp tracer * spp tracer))))"

fun render_rows :: "Externals \<Rightarrow> HypoxRayTracer \<Rightarrow> int \<Rightarrow> int list \<Rightarrow> fault + pixel_write list" where
  "render_rows ext tracer dx [] = Inr []"
| "render_rows ext tracer dx (dy # dys) =
     (case render_pixel ext tracer dx dy of
        Inl e \<Rightarrow> Inl e
      | Inr w \<Rightarrow>
          (case render_rows ext tracer dx dys of
             Inl e \<Rightarrow> Inl e
           | Inr ws \<Rightarrow> Inr (w # ws)))"

text \<open>
  Lines 55 to 81: the columns. Inside the loop \<open>0 \<le> dx < resolution.x()\<close>, so the
  truncating quotient of C++ is \<open>div\<close>.
\<close>

fun render_columns :: "Externals \<Rightarrow> HypoxRayTracer \<Rightarrow> int list \<Rightarrow> fault + pixel_write list" where
  "render_columns ext tracer [] = Inr []"
| "render_columns ext tracer (dx # dxs) =
     (if fst (resolution (camera tracer)) div 200 = 0 then Inl DivisionByZero
      else
        (case render_rows ext tracer dx [0 .. snd (resolution (camera tracer)) - 1] of
           Inl e \<Rightarrow> Inl e
         | Inr ws \<Rightarrow>
             (case render_columns ext tracer dxs of
                Inl e \<Rightarrow> Inl e
              | Inr ws' \<Rightarrow> Inr (ws @ ws'))))"

text \<open>\<^verbatim>\<open>HypoxRayTracer::render\<close>, lines 50 to 83 of HypoxRayTracer.cpp.\<close>

definition render :: "Externals \<Rightarrow> HypoxRayTracer \<Rightarrow> fault + pixel_write list" where
  "render ext tracer = render_columns ext tracer [0 .. fst (resolution (camera tracer)) - 1]"

section \<open>Names for intermediate values\<close>

text \<open>Line 37 of the geometry: the parameter of the ray at the plane of the rectangle.\<close>

definition Rectangle_t :: "Rectangle \<Rightarrow> ray \<Rightarrow> float" where
  "Rectangle_t rect r =
     dot (rect_position rect - origin r) (rect_normal rect) / dot (direction r) (rect_normal rect)"

text \<open>Line 136 of the geometry: the parameter of the ray at the ground.\<close>

definition Ground_t :: "Ground \<Rightarrow> ray \<Rightarrow> float" where
  "Ground_t g r = (ground_z g - vz (origin r)) / vz (direction r)"

text \<open>Line 79 of the tracer: the colour passed to \<^verbatim>\<open>setPixel\<close>.\<close>

definition pixel_value :: "Externals \<Rightarrow> HypoxRayTracer \<Rightarrow> int \<Rightarrow> int \<Rightarrow> vec3" where
  "pixel_value ext tracer dx dy =
     sdiv (foldl (sample_step ext tracer) (Vec3f (lit 0) (lit 0) (lit 0))
                 (generateSuperSamplingPoint (camera tracer) dx dy (spp tracer)))
          (float_of_int (spp tracer * spp tracer))"

text \<open>The range of a 32-bit int.\<close>

definition int_ok :: "int \<Rightarrow> bool" where
  "int_ok n = (- (2 ^ 31) \<le> n \<and> n < 2 ^ 31)"

section \<open>The specification's wording\<close>

text \<open>
  The barycentric solve as the specification words it:
  \<open>(t, u, v) = (1/(s1\<cdot>e1)) \<cdot> (s2\<cdot>e2, s1\<cdot>s, s2\<cdot>d)\<close> with \<open>e1 = v1 - v0\<close>, \<open>e2 = v2 - v0\<close>,
  \<open>s = origin - v0\<close>, \<open>s1 = direction \<times> e2\<close> and \<open>s2 = s \<times> e1\<close>.
\<close>

definition moeller_trumbore :: "Triangle \<Rightarrow> ray \<Rightarrow> vec3" where
  "moeller_trumbore tri r =
     (let e1 = tri_v1 tri - tri_v0 tri;
          e2 = tri_v2 tri - tri_v0 tri;
          s = origin r - tri_v0 tri;
          s1 = cross (direction r) e2;
          s2 = cross s e1
      in smul (1 / dot s1 e1) (Vec3f (dot s2 e2) (dot s1 s) (dot s2 (direction r))))"

text \<open>
  The root of the ellipsoid as the specification words it: the smaller root when both
  roots are positive, else the single positive root, else none.
\<close>

definition smaller :: "float \<Rightarrow> float \<Rightarrow> float" where
  "smaller a b = (if a \<le> b then a else b)"

definition chosen_root :: "float \<Rightarrow> float \<Rightarrow> float option" where
  "chosen_root t1 t2 =
     (if 0 < t1 \<and> 0 < t2 then Some (smaller t1 t2)
      else if 0 < t1 then Some t1
      else if 0 < t2 then Some t2
      else None)"

text \<open>
  Modelled from the spec: the constructor of Ray is declared in a header that is not
  part of the sources. The specification gives a ray an origin, a direction and an
  interval \<open>[tMin, tMax]\<close> whose bounds have defaults. The model stores the two arguments
  and takes the two defaults as parameters; nothing below depends on the stored
  direction.
\<close>

definition Ray_ctor :: "float \<Rightarrow> float \<Rightarrow> vec3 \<Rightarrow> vec3 \<Rightarrow> ray" where
  "Ray_ctor t_min t_max orig d = \<lparr>origin = orig, direction = d, tMin = t_min, tMax = t_max\<rparr>"

section \<open>Concrete inputs\<close>

subsection \<open>An exact inverse\<close>

text \<open>
  The inverse of a matrix by cofactors over the determinant. On an invertible matrix
  with finite entries this is the inverse, whatever routine computes it; it stands for
  Eigen's routines on the concrete inputs below.
\<close>

definition det3 :: "mat3 \<Rightarrow> float" where
  "det3 m = dot (row3_0 m) (cross (row3_1 m) (row3_2 m))"

definition cofactor_inverse3 :: "mat3 \<Rightarrow> mat3" where
  "cofactor_inverse3 m =
     (let d = det3 m
      in transpose3 (Mat3f (sdiv (cross (row3_1 m) (row3_2 m)) d)
                           (sdiv (cross (row3_2 m) (row3_0 m)) d)
                           (sdiv (cross (row3_0 m) (row3_1 m)) d)))"

definition drop4 :: "nat \<Rightarrow> vec4 \<Rightarrow> vec3" where
  "drop4 j v =
     (if j = 0 then Vec3f (wy v) (wz v) (ww v)
      else if j = 1 then Vec3f (wx v) (wz v) (ww v)
      else if j = 2 then Vec3f (wx v) (wy v) (ww v)
      else Vec3f (wx v) (wy v) (wz v))"

definition minor4 :: "mat4 \<Rightarrow> nat \<Rightarrow> nat \<Rightarrow> mat3" where
  "minor4 m i j =
     (if i = 0 then Mat3f (drop4 j (row4_1 m)) (drop4 j (row4_2 m)) (drop4 j (row4_3 m))
      else if i = 1 then Mat3f (drop4 j (row4_0 m)) (drop4 j (row4_2 m)) (drop4 j (row4_3 m))
      else if i = 2 then Mat3f (drop4 j (row4_0 m)) (drop4 j (row4_1 m)) (drop4 j (row4_3 m))
      else Mat3f (drop4 j (row4_0 m)) (drop4 j (row4_1 m)) (drop4 j (row4_2 m)))"

definition cofactor4 :: "mat4 \<Rightarrow> nat \<Rightarrow> nat \<Rightarrow> float" where
  "cofactor4 m i j = (if even (i + j) then det3 (minor4 m i j) else - det3 (minor4 m i j))"

definition det4 :: "mat4 \<Rightarrow> float" where
  "det4 m =
     wx (row4_0 m) * cofactor4 m 0 0 + wy (row4_0 m) * cofactor4 m 0 1
     + wz (row4_0 m) * cofactor4 m 0 2 + ww (row4_0 m) * cofactor4 m 0 3"

definition cofactor_inverse4 :: "mat4 \<Rightarrow> mat4" where
  "cofactor_inverse4 m =
     (let d = det4 m
      in Mat4f (Vec4f (cofactor4 m 0 0 / d) (cofactor4 m 1 0 / d)
                      (cofactor4 m 2 0 / d) (cofactor4 m 3 0 / d))
               (Vec4f (cofactor4 m 0 1 / d) (cofactor4 m 1 1 / d)
                      (cofactor4 m 2 1 / d) (cofactor4 m 3 1 / d))
               (Vec4f (cofactor4 m 0 2 / d) (cofactor4 m 1 2 / d)
                      (cofactor4 m 2 2 / d) (cofactor4 m 3 2 / d))
               (Vec4f (cofactor4 m 0 3 / d) (cofactor4 m 1 3 / d)
                      (cofactor4 m 2 3 / d) (cofactor4 m 3 3 / d)))"

definition exact_Eigen :: Eigen where
  "exact_Eigen = \<lparr>inverse4 = cofactor_inverse4, inverse3 = cofactor_inverse3\<rparr>"

subsection \<open>A small scene\<close>

definition vec :: "real \<Rightarrow> real \<Rightarrow> real \<Rightarrow> vec3" where
  "vec a b c = Vec3f (Finite a) (Finite b) (Finite c)"

definition grey :: Material where
  "grey interaction =
     \<lparr>Ambient = vec 1 1 1, Diffuse = vec 1 1 1, Specular = vec 1 1 1, Shininess = Finite 1\<rparr>"

definition blank :: Interaction where
  "blank =
     \<lparr>distance = Finite 0, position = vec 0 0 0, normal = vec 0 0 0,
      matmodel = \<lparr>Ambient = vec 0 0 0, Diffuse = vec 0 0 0, Specular = vec 0 0 0,
                  Shininess = Finite 0\<rparr>,
      type = NONE\<rparr>"

text \<open>A ray with the interval \<open>[1/10000, \<infinity>)\<close>.\<close>

definition mk_ray :: "vec3 \<Rightarrow> vec3 \<Rightarrow> ray" where
  "mk_ray = Ray_ctor (Finite (1 / 10000)) PInf"

text \<open>The triangle (0,0,0), (1,0,0), (0,1,0) in the plane \<open>z = 0\<close>.\<close>

definition unit_triangle :: Triangle where
  "unit_triangle =
     \<lparr>tri_v0 = vec 0 0 0, tri_v1 = vec 1 0 0, tri_v2 = vec 0 1 0,
      tri_normal = vec 0 0 1, tri_material = grey\<rparr>"

text \<open>The square of side 2 around the origin of the plane \<open>z = 0\<close>.\<close>

definition square :: Rectangle where
  "square =
     \<lparr>rect_position = vec 0 0 0, rect_size = (Finite 2, Finite 2),
      rect_normal = vec 0 0 1, rect_tangent = vec 1 0 0, rect_material = grey\<rparr>"

text \<open>The ellipsoid around the origin with the half-axes 2, 1 and 1.\<close>

definition egg :: Ellipsoid where
  "egg =
     \<lparr>ell_p = vec 0 0 0, ell_a = vec 2 0 0, ell_b = vec 0 1 0, ell_c = vec 0 0 1,
      ell_material = grey\<rparr>"

definition floor_plane :: Ground where
  "floor_plane = \<lparr>ground_z = Finite 0, ground_material = grey\<rparr>"

text \<open>Rays used below: onto the triangle from above, and away from it.\<close>

definition ray_onto_triangle :: ray where
  "ray_onto_triangle = mk_ray (vec (1 / 4) (1 / 4) 1) (vec 0 0 (- 1))"

definition ray_off_triangle :: ray where
  "ray_off_triangle = mk_ray (vec (1 / 4) (1 / 4) 1) (vec 0 0 1)"

text \<open>A value for \<^verbatim>\<open>EPS\<close>.\<close>

definition small_EPS :: float where
  "small_EPS = Finite (1 / 100000)"

text \<open>Rays for the square: along it at height 1, and leaving it from its centre.\<close>

definition ray_along_square :: ray where
  "ray_along_square = mk_ray (vec 0 0 1) (vec 1 0 0)"

definition ray_leaving_square :: ray where
  "ray_leaving_square = mk_ray (vec 0 0 0) (vec 0 0 1)"

text \<open>Rays for the ellipsoid: onto it from above, and past it.\<close>

definition ray_onto_egg :: ray where
  "ray_onto_egg = mk_ray (vec 0 0 3) (vec 0 0 (- 1))"

definition ray_past_egg :: ray where
  "ray_past_egg = mk_ray (vec 3 0 3) (vec 0 0 (- 1))"

text \<open>
  Rays for the ground: down onto it, horizontal from a point of the plane, horizontal
  from a point below the plane and horizontal from a point above it.
\<close>

definition ray_onto_floor :: ray where
  "ray_onto_floor = mk_ray (vec 0 0 1) (vec 0 0 (- 1))"

definition ray_in_floor :: ray where
  "ray_in_floor = mk_ray (vec 0 0 0) (vec 1 0 0)"

definition ray_under_floor :: ray where
  "ray_under_floor = mk_ray (vec 0 0 (- 1)) (vec 1 0 0)"

definition ray_over_floor :: ray where
  "ray_over_floor = mk_ray (vec 0 0 1) (vec 1 0 0)"

subsection \<open>A small tracer\<close>

text \<open>
  The values of \<^verbatim>\<open>powf\<close> at finite arguments, idealised. At an infinite or NaN argument
  this function gives NaN, which the C library does not in every case; the inputs below
  never call it there.
\<close>

fun powf_finite :: "float \<Rightarrow> float \<Rightarrow> float" where
  "powf_finite (Finite a) (Finite b) =
     (if b = 0 then Finite 1
      else if a = 0 then (if 0 < b then Finite 0 else PInf)
      else if 0 < a then Finite (a powr b)
      else if b = of_int \<lfloor>b\<rfloor> then Finite (a powi \<lfloor>b\<rfloor>)
      else NaN)"
| "powf_finite _ _ = NaN"

definition plain :: Externals where
  "plain = \<lparr>powf = powf_finite, Ray = mk_ray, new_Interaction = blank\<rparr>"

text \<open>
  A hit at the origin of the plane \<open>z = 0\<close>, where the floor and the square lie, with
  the normal (0,0,1); and a light in the same plane.
\<close>

definition floor_hit :: Interaction where
  "floor_hit =
     \<lparr>distance = Finite 1, position = vec 0 0 0, normal = vec 0 0 1,
      matmodel = grey blank, type = GEOMETRY\<rparr>"

definition lamp :: VPL where
  "lamp = \<lparr>vpl_position = vec 2 0 0, vpl_color = vec 1 1 1\<rparr>"

text \<open>
  Two scenes with a white light, no virtual point light and no ambient light: in one
  every ray hits the floor, in the other every ray sees the light.
\<close>

definition floor_scene :: Scene where
  "floor_scene =
     \<lparr>light_color = vec 1 1 1, light_vpls = [], ambient_light = vec 0 0 0,
      isShadowed = (\<lambda>r. False), scene_intersect = Ground_intersect floor_plane\<rparr>"


text \<open>
  A camera that looks down from height 1 and samples a pixel \<open>spp\<^sup>2\<close> times at its
  corner.
\<close>

definition top_camera :: "int \<times> int \<Rightarrow> Camera" where
  "top_camera res =
     \<lparr>resolution = res,
      generateSuperSamplingPoint =
        (\<lambda>dx dy n. replicate (nat (n * n)) (float_of_int dx, float_of_int dy)),
      generateRay = (\<lambda>px py. mk_ray (Vec3f px py (Finite 1)) (vec 0 0 (- 1)))\<rparr>"

definition floor_tracer :: "int \<times> int \<Rightarrow> HypoxRayTracer" where
  "floor_tracer res = \<lparr>scene = floor_scene, camera = top_camera res, spp = 1\<rparr>"


section \<open>Evaluation\<close>

lemmas float_ops =
  zero_float_def one_float_def plus_float_def uminus_float_def minus_float_def
  times_float_def divide_float_def inverse_float_def less_eq_float_def less_float_def
  abs_float_def signed_inf_def lit_def

lemmas vec3_ops =
  zero_vec3_def plus_vec3_def uminus_vec3_def minus_vec3_def smul_def vscale_def sdiv_def
  cwiseProduct_def dot_def cross_def squaredNorm_def norm3_def normalized_def vec_def

lemmas mat_ops =
  dot4_def transpose4_def mat4_vec_def mat4_mul_def block3_def transpose3_def mat3_vec_def
  det3_def cofactor_inverse3_def cofactor4_def det4_def cofactor_inverse4_def drop4_def
  minor4_def exact_Eigen_def

lemmas ray_ops = mk_ray_def Ray_ctor_def ray_at_def

lemmas quadratic_defs = Ellipsoid_a_def Ellipsoid_b_def Ellipsoid_c_def Ellipsoid_delta_def
  Ellipsoid_t1_def Ellipsoid_t2_def

section \<open>Facts of the float model\<close>

text \<open>
  Comparisons are not total: with NaN on either side both \<open><\<close> and \<open>\<le>\<close> are false.
\<close>

lemma not_lt_not_le_NaN: "\<not> 0 < (d::float) \<Longrightarrow> \<not> d \<le> 0 \<Longrightarrow> d = NaN"
  by (cases d) (auto simp: float_ops)

lemma le_zero_not_pos: "(d::float) \<le> 0 \<Longrightarrow> \<not> 0 < d"
  by (cases d) (auto simp: float_ops)

lemma pos_not_le_zero: "0 < (d::float) \<Longrightarrow> \<not> d \<le> 0"
  by (cases d) (auto simp: float_ops)

lemma pos_not_NaN: "0 < (t::float) \<Longrightarrow> t \<noteq> NaN"
  by (auto simp: float_ops)

lemma not_less_le: "\<not> (t::float) < m \<Longrightarrow> t \<noteq> NaN \<Longrightarrow> m \<noteq> NaN \<Longrightarrow> m \<le> t"
  by (cases t; cases m) (auto simp: float_ops)

lemma smaller_std_min: "0 < a \<Longrightarrow> 0 < b \<Longrightarrow> std_min a b = smaller a b"
  by (cases a; cases b) (auto simp: float_ops std_min_def smaller_def)

lemma fadd_NaN_right [simp]: "fadd a NaN = NaN" by (cases a) simp_all

lemma fdiv_NaN_left [simp]: "fdiv NaN a = NaN" by simp

lemma fdiv_NaN_right [simp]: "fdiv a NaN = NaN" by (cases a) simp_all


section \<open>What a hit writes\<close>

text \<open>
  On a hit every routine writes the five fields of the interaction: the distance, the
  position, the normal, the type GEOMETRY, and the material evaluated on the record that
  holds these four.
\<close>

lemma populate_fields:
  "distance (populate i t p n m) = t"
  "position (populate i t p n m) = p"
  "normal (populate i t p n m) = n"
  "type (populate i t p n m) = GEOMETRY"
  "matmodel (populate i t p n m)
     = m (i\<lparr>distance := t, position := p, normal := n, type := GEOMETRY\<rparr>)"
  by (simp_all add: populate_def Let_def)

lemma Triangle_hit_iff:
  "fst (Triangle_intersect tri r interaction)
     = (tMin r \<le> vx (moeller_trumbore tri r)
        \<and> 0 \<le> vy (moeller_trumbore tri r)
        \<and> 0 \<le> vz (moeller_trumbore tri r)
        \<and> vy (moeller_trumbore tri r) + vz (moeller_trumbore tri r) \<le> 1)"
  by (simp add: Triangle_intersect_def moeller_trumbore_def Let_def)

lemma Triangle_hit_populates:
  "fst (Triangle_intersect tri r i) \<Longrightarrow>
   snd (Triangle_intersect tri r i)
     = populate i (vx (moeller_trumbore tri r)) (ray_at r (vx (moeller_trumbore tri r)))
         (normalized (tri_normal tri)) (tri_material tri)"
  by (simp add: Triangle_intersect_def moeller_trumbore_def Let_def split: if_splits)

lemma Rectangle_hit_populates:
  "fst (Rectangle_intersect EPS rect r i) \<Longrightarrow>
   snd (Rectangle_intersect EPS rect r i)
     = populate i (Rectangle_t rect r) (ray_at r (Rectangle_t rect r))
         (normalized (rect_normal rect)) (rect_material rect)"
  by (simp add: Rectangle_intersect_def Rectangle_t_def Let_def split: if_splits)

lemma Rectangle_hit_t: "fst (Rectangle_intersect EPS rect r i) \<Longrightarrow> 0 \<le> Rectangle_t rect r"
  by (simp add: Rectangle_intersect_def Rectangle_t_def Let_def split: if_splits)

lemma Ellipsoid_hit_fst: "fst (Ellipsoid_hit eig e r i od t) = (\<not> t < tMin r)"
  by (simp add: Ellipsoid_hit_def)

lemma Ellipsoid_hit_distance:
  "\<not> t < tMin r \<Longrightarrow> distance (snd (Ellipsoid_hit eig e r i od t)) = t"
  by (simp add: Ellipsoid_hit_def populate_def Let_def)

lemma Ellipsoid_hit_populates:
  "fst (Ellipsoid_intersect eig e r i) \<Longrightarrow>
   \<exists>t. 0 < t \<and> \<not> t < tMin r \<and>
       snd (Ellipsoid_intersect eig e r i)
         = populate i t (ray_at r t)
             (normalized (Ellipsoid_normal eig e (Ellipsoid_transformed eig e r) t))
             (ell_material e)"
  by (auto simp add: Ellipsoid_intersect_def Ellipsoid_hit_def Let_def std_min_def
      split: if_splits)

lemma Ground_hit_iff: "fst (Ground_intersect g r i) = (\<not> Ground_t g r < tMin r)"
  by (simp add: Ground_intersect_def Ground_t_def Let_def)

lemma Ground_hit_populates:
  "fst (Ground_intersect g r i) \<Longrightarrow>
   snd (Ground_intersect g r i)
     = populate i (Ground_t g r) (ray_at r (Ground_t g r)) (Vec3f (lit 0) (lit 0) (lit 1))
         (ground_material g)"
  by (simp add: Ground_intersect_def Ground_t_def Let_def split: if_splits)

section \<open>Triangle\<close>

lemma moeller_trumbore_onto:
  "moeller_trumbore unit_triangle ray_onto_triangle = vec 1 (1 / 4) (1 / 4)"
  by (simp add: moeller_trumbore_def unit_triangle_def ray_onto_triangle_def ray_ops
      float_ops vec3_ops)

lemma moeller_trumbore_off:
  "moeller_trumbore unit_triangle ray_off_triangle = vec (- 1) (1 / 4) (1 / 4)"
  by (simp add: moeller_trumbore_def unit_triangle_def ray_off_triangle_def ray_ops
      float_ops vec3_ops)

lemma triangle_hit: "fst (Triangle_intersect unit_triangle ray_onto_triangle blank)"
  unfolding Triangle_hit_iff moeller_trumbore_onto
  by (simp add: ray_onto_triangle_def ray_ops float_ops vec3_ops)

lemma Triangle_miss: "\<not> fst (Triangle_intersect unit_triangle ray_off_triangle blank)"
  unfolding Triangle_hit_iff moeller_trumbore_off
  by (simp add: ray_off_triangle_def ray_ops float_ops vec3_ops)

text \<open>
  C1. For every triangle and every ray, \<open>Triangle::intersect\<close> returns true exactly when
  the solution \<open>(t, u, v)\<close> of the Moeller-Trumbore solve, as the specification words it,
  satisfies \<open>t \<ge> tMin\<close>, \<open>u \<ge> 0\<close>, \<open>v \<ge> 0\<close> and \<open>u + v \<le> 1\<close>; it then stores the distance
  \<open>t\<close>, the position \<open>ray(t)\<close> and the stored face normal, normalized.
\<close>

theorem Triangle_intersect_moeller_trumbore:
  "fst (Triangle_intersect tri r interaction)
     = (tMin r \<le> vx (moeller_trumbore tri r)
        \<and> 0 \<le> vy (moeller_trumbore tri r)
        \<and> 0 \<le> vz (moeller_trumbore tri r)
        \<and> vy (moeller_trumbore tri r) + vz (moeller_trumbore tri r) \<le> 1)
   \<and> (fst (Triangle_intersect tri r interaction) \<longrightarrow>
        distance (snd (Triangle_intersect tri r interaction)) = vx (moeller_trumbore tri r)
      \<and> position (snd (Triangle_intersect tri r interaction))
          = ray_at r (vx (moeller_trumbore tri r))
      \<and> normal (snd (Triangle_intersect tri r interaction)) = normalized (tri_normal tri))"
  by (simp add: Triangle_intersect_def moeller_trumbore_def populate_def Let_def)

theorem Triangle_intersect_moeller_trumbore_witness:
  "fst (Triangle_intersect unit_triangle ray_onto_triangle blank)
   \<and> distance (snd (Triangle_intersect unit_triangle ray_onto_triangle blank)) = Finite 1
   \<and> position (snd (Triangle_intersect unit_triangle ray_onto_triangle blank))
       = vec (1 / 4) (1 / 4) 0
   \<and> normal (snd (Triangle_intersect unit_triangle ray_onto_triangle blank)) = vec 0 0 1"
  using Triangle_intersect_moeller_trumbore [of unit_triangle ray_onto_triangle blank]
  by (simp add: moeller_trumbore_onto)
     (simp add: unit_triangle_def ray_onto_triangle_def ray_ops float_ops vec3_ops)

section \<open>Ellipsoid\<close>

lemma egg_M: "Ellipsoid_M egg =
  Mat4f (Vec4f (Finite 2) (Finite 0) (Finite 0) (Finite 0))
        (Vec4f (Finite 0) (Finite 1) (Finite 0) (Finite 0))
        (Vec4f (Finite 0) (Finite 0) (Finite 1) (Finite 0))
        (Vec4f (Finite 0) (Finite 0) (Finite 0) (Finite 1))"
  by (simp add: Ellipsoid_M_def egg_def Let_def float_ops vec3_ops mat_ops)

lemma egg_M_inv: "inverse4 exact_Eigen (Ellipsoid_M egg) =
  Mat4f (Vec4f (Finite (1 / 2)) (Finite 0) (Finite 0) (Finite 0))
        (Vec4f (Finite 0) (Finite 1) (Finite 0) (Finite 0))
        (Vec4f (Finite 0) (Finite 0) (Finite 1) (Finite 0))
        (Vec4f (Finite 0) (Finite 0) (Finite 0) (Finite 1))"
  unfolding egg_M by (simp add: Let_def float_ops vec3_ops mat_ops)

lemma egg_M3_inv: "inverse3 exact_Eigen (block3 (Ellipsoid_M egg)) =
  Mat3f (Vec3f (Finite (1 / 2)) (Finite 0) (Finite 0))
        (Vec3f (Finite 0) (Finite 1) (Finite 0))
        (Vec3f (Finite 0) (Finite 0) (Finite 1))"
  unfolding egg_M by (simp add: Let_def float_ops vec3_ops mat_ops)

lemma egg_onto: "Ellipsoid_transformed exact_Eigen egg ray_onto_egg = (vec 0 0 3, vec 0 0 (- 1))"
  unfolding Ellipsoid_transformed_def egg_M_inv
  by (simp add: Let_def ray_onto_egg_def ray_ops float_ops vec3_ops mat_ops)

lemma egg_past: "Ellipsoid_transformed exact_Eigen egg ray_past_egg = (vec (3 / 2) 0 3, vec 0 0 (- 1))"
  unfolding Ellipsoid_transformed_def egg_M_inv
  by (simp add: Let_def ray_past_egg_def ray_ops float_ops vec3_ops mat_ops)

lemma egg_onto_delta: "Ellipsoid_delta (vec 0 0 3, vec 0 0 (- 1)) = Finite 4"
  by (simp add: quadratic_defs Let_def float_ops vec3_ops)

lemma egg_onto_roots:
  "Ellipsoid_t1 (vec 0 0 3, vec 0 0 (- 1)) = Finite 2"
  "Ellipsoid_t2 (vec 0 0 3, vec 0 0 (- 1)) = Finite 4"
  unfolding Ellipsoid_t1_def Ellipsoid_t2_def egg_onto_delta
  by (simp_all add: Ellipsoid_a_def Ellipsoid_b_def float_ops vec3_ops)

lemma egg_past_delta: "Ellipsoid_delta (vec (3 / 2) 0 3, vec 0 0 (- 1)) = Finite (- 5)"
  by (simp add: quadratic_defs Let_def float_ops vec3_ops)

lemma tMin_onto_egg: "tMin ray_onto_egg = Finite (1 / 10000)"
  by (simp add: ray_onto_egg_def ray_ops)

lemma egg_normal:
  "Ellipsoid_normal exact_Eigen egg (vec 0 0 3, vec 0 0 (- 1)) (Finite 2) = vec 0 0 1"
  by (simp add: Ellipsoid_normal_def egg_M3_inv Let_def float_ops vec3_ops mat3_vec_def
      transpose3_def)

lemma egg_hit:
  "Ellipsoid_intersect exact_Eigen egg ray_onto_egg blank
     = (True, populate blank (Finite 2) (ray_at ray_onto_egg (Finite 2))
                (normalized (Ellipsoid_normal exact_Eigen egg (vec 0 0 3, vec 0 0 (- 1)) (Finite 2)))
                grey)"
  by (simp add: Ellipsoid_intersect_def egg_onto egg_onto_delta egg_onto_roots Ellipsoid_hit_def
      std_min_def tMin_onto_egg float_ops Let_def)
     (simp add: egg_def)

lemma Ellipsoid_miss: "\<not> fst (Ellipsoid_intersect exact_Eigen egg ray_past_egg blank)"
  by (simp add: Ellipsoid_intersect_def egg_past egg_past_delta float_ops Let_def)

lemma roots_NaN:
  assumes "Ellipsoid_delta od = NaN"
  shows "Ellipsoid_t1 od = NaN" "Ellipsoid_t2 od = NaN"
  using assms by (simp_all add: Ellipsoid_t1_def Ellipsoid_t2_def float_ops)

lemma chosen_root_NaN: "chosen_root NaN NaN = None"
  by (simp add: chosen_root_def float_ops)

lemma Ellipsoid_intersect_chosen:
  assumes "0 < Ellipsoid_delta (Ellipsoid_transformed eig e r)"
  shows "Ellipsoid_intersect eig e r i =
     (case chosen_root (Ellipsoid_t1 (Ellipsoid_transformed eig e r))
                       (Ellipsoid_t2 (Ellipsoid_transformed eig e r)) of
        None \<Rightarrow> (False, i)
      | Some t \<Rightarrow> Ellipsoid_hit eig e r i (Ellipsoid_transformed eig e r) t)"
  using assms
  by (simp add: Ellipsoid_intersect_def chosen_root_def Let_def smaller_std_min)

text \<open>
  C4. For every ellipsoid and every ray, with the ray mapped into the space of the unit
  sphere: \<open>Ellipsoid::intersect\<close> returns false when the discriminant is at most zero.
  Otherwise the root is chosen as the specification words it (the smaller root when both
  are positive, else the single positive root, else none); with no root, and with a
  chosen root below \<open>tMin\<close>, the result is false, and else the result is true with the
  chosen root as distance.
\<close>

theorem Ellipsoid_intersect_root_selection:
  "(Ellipsoid_delta (Ellipsoid_transformed eig e r) \<le> 0 \<longrightarrow>
      \<not> fst (Ellipsoid_intersect eig e r interaction))
   \<and> (\<not> Ellipsoid_delta (Ellipsoid_transformed eig e r) \<le> 0 \<longrightarrow>
        (case chosen_root (Ellipsoid_t1 (Ellipsoid_transformed eig e r))
                          (Ellipsoid_t2 (Ellipsoid_transformed eig e r)) of
           None \<Rightarrow> \<not> fst (Ellipsoid_intersect eig e r interaction)
         | Some t \<Rightarrow>
             if t < tMin r then \<not> fst (Ellipsoid_intersect eig e r interaction)
             else fst (Ellipsoid_intersect eig e r interaction)
                  \<and> distance (snd (Ellipsoid_intersect eig e r interaction)) = t))"
proof (intro conjI impI)
  assume "Ellipsoid_delta (Ellipsoid_transformed eig e r) \<le> 0"
  then show "\<not> fst (Ellipsoid_intersect eig e r interaction)"
    by (simp add: Ellipsoid_intersect_def Let_def le_zero_not_pos)
next
  let ?od = "Ellipsoid_transformed eig e r"
  assume n: "\<not> Ellipsoid_delta ?od \<le> 0"
  show "case chosen_root (Ellipsoid_t1 ?od) (Ellipsoid_t2 ?od) of
           None \<Rightarrow> \<not> fst (Ellipsoid_intersect eig e r interaction)
         | Some t \<Rightarrow>
             if t < tMin r then \<not> fst (Ellipsoid_intersect eig e r interaction)
             else fst (Ellipsoid_intersect eig e r interaction)
                  \<and> distance (snd (Ellipsoid_intersect eig e r interaction)) = t"
  proof (cases "0 < Ellipsoid_delta ?od")
    case True
    then show ?thesis
      by (simp add: Ellipsoid_intersect_chosen Ellipsoid_hit_fst Ellipsoid_hit_distance
          split: option.split)
  next
    case False
    with n have "Ellipsoid_delta ?od = NaN" by (simp add: not_lt_not_le_NaN)
    then have "chosen_root (Ellipsoid_t1 ?od) (Ellipsoid_t2 ?od) = None"
      by (simp add: roots_NaN chosen_root_NaN)
    with False show ?thesis
      by (simp add: Ellipsoid_intersect_def Let_def)
  qed
qed

theorem Ellipsoid_intersect_root_selection_witness:
  "Ellipsoid_delta (Ellipsoid_transformed exact_Eigen egg ray_past_egg) \<le> 0
   \<and> \<not> fst (Ellipsoid_intersect exact_Eigen egg ray_past_egg blank)
   \<and> \<not> Ellipsoid_delta (Ellipsoid_transformed exact_Eigen egg ray_onto_egg) \<le> 0
   \<and> chosen_root (Ellipsoid_t1 (Ellipsoid_transformed exact_Eigen egg ray_onto_egg))
                  (Ellipsoid_t2 (Ellipsoid_transformed exact_Eigen egg ray_onto_egg))
       = Some (Finite 2)
   \<and> \<not> Finite 2 < tMin ray_onto_egg
   \<and> fst (Ellipsoid_intersect exact_Eigen egg ray_onto_egg blank)
   \<and> distance (snd (Ellipsoid_intersect exact_Eigen egg ray_onto_egg blank)) = Finite 2"
  using Ellipsoid_intersect_root_selection [of exact_Eigen egg ray_past_egg blank]
    Ellipsoid_intersect_root_selection [of exact_Eigen egg ray_onto_egg blank]
  by (simp add: egg_onto egg_past egg_onto_delta egg_onto_roots egg_past_delta chosen_root_def
      smaller_def float_ops tMin_onto_egg)

section \<open>A miss writes nothing\<close>

lemma Rectangle_miss: "\<not> fst (Rectangle_intersect small_EPS square ray_along_square blank)"
  by (simp add: Rectangle_intersect_def square_def ray_along_square_def small_EPS_def ray_ops
      float_ops vec3_ops Let_def)

text \<open>
  C9. For every ray, when \<open>Triangle::intersect\<close>, \<open>Rectangle::intersect\<close> or
  \<open>Ellipsoid::intersect\<close> returns false, the interaction passed by reference is the one
  that was passed in: no field has been written.
\<close>

theorem miss_leaves_interaction_unchanged:
  "(\<not> fst (Triangle_intersect tri r interaction) \<longrightarrow>
      snd (Triangle_intersect tri r interaction) = interaction)
   \<and> (\<not> fst (Rectangle_intersect EPS rect r interaction) \<longrightarrow>
        snd (Rectangle_intersect EPS rect r interaction) = interaction)
   \<and> (\<not> fst (Ellipsoid_intersect eig e r interaction) \<longrightarrow>
        snd (Ellipsoid_intersect eig e r interaction) = interaction)"
  by (simp add: Triangle_intersect_def Rectangle_intersect_def Ellipsoid_intersect_def
      Ellipsoid_hit_def Let_def)

theorem miss_leaves_interaction_unchanged_witness:
  "\<not> fst (Triangle_intersect unit_triangle ray_off_triangle blank)
   \<and> snd (Triangle_intersect unit_triangle ray_off_triangle blank) = blank
   \<and> \<not> fst (Rectangle_intersect small_EPS square ray_along_square blank)
   \<and> snd (Rectangle_intersect small_EPS square ray_along_square blank) = blank
   \<and> \<not> fst (Ellipsoid_intersect exact_Eigen egg ray_past_egg blank)
   \<and> snd (Ellipsoid_intersect exact_Eigen egg ray_past_egg blank) = blank"
  using
    miss_leaves_interaction_unchanged
      [where tri = unit_triangle and r = ray_off_triangle and interaction = blank]
    miss_leaves_interaction_unchanged
      [where EPS = small_EPS and rect = square and r = ray_along_square and interaction = blank]
    miss_leaves_interaction_unchanged
      [where eig = exact_Eigen and e = egg and r = ray_past_egg and interaction = blank]
    Triangle_miss Rectangle_miss Ellipsoid_miss
  by simp

section \<open>Hits and the lower bound of the ray\<close>

text \<open>
  The triangle compares the distance with \<open>tMin\<close> itself. The ellipsoid and the ground
  return false when \<open>t < tMin\<close>, which gives \<open>tMin \<le> t\<close> unless a NaN is involved.
\<close>

lemma Triangle_hit_forward:
  "fst (Triangle_intersect tri r i) \<Longrightarrow> tMin r \<le> distance (snd (Triangle_intersect tri r i))"
  by (simp add: Triangle_intersect_def populate_def Let_def split: if_splits)

lemma Ellipsoid_hit_forward:
  assumes "fst (Ellipsoid_intersect eig e r i)" "tMin r \<noteq> NaN"
  shows "tMin r \<le> distance (snd (Ellipsoid_intersect eig e r i))"
proof -
  from Ellipsoid_hit_populates [OF assms(1)] obtain t where
    "0 < t" "\<not> t < tMin r" "distance (snd (Ellipsoid_intersect eig e r i)) = t"
    by (auto simp: populate_fields)
  with assms(2) show ?thesis by (simp add: not_less_le pos_not_NaN)
qed

lemma Ground_hit_forward:
  assumes "fst (Ground_intersect g r i)" "Ground_t g r \<noteq> NaN" "tMin r \<noteq> NaN"
  shows "tMin r \<le> distance (snd (Ground_intersect g r i))"
  using assms by (simp add: Ground_hit_populates populate_fields Ground_hit_iff not_less_le)

lemma square_hit: "fst (Rectangle_intersect small_EPS square ray_leaving_square blank)"
  by (simp add: Rectangle_intersect_def square_def ray_leaving_square_def small_EPS_def
      populate_def ray_ops float_ops vec3_ops Let_def)

text \<open>
  C3. The rectangle compares the distance with 0, not with \<open>tMin\<close>: a ray that leaves the
  square from its centre, with \<open>tMin = 1/10000\<close>, is reported as a hit at distance 0, so
  that a hit of \<open>Rectangle::intersect\<close> does not have \<open>distance \<ge> tMin\<close>.
\<close>

theorem Rectangle_hit_before_tMin:
  "fst (Rectangle_intersect small_EPS square ray_leaving_square blank)
   \<and> distance (snd (Rectangle_intersect small_EPS square ray_leaving_square blank)) = Finite 0
   \<and> tMin ray_leaving_square = Finite (1 / 10000)
   \<and> \<not> tMin ray_leaving_square
         \<le> distance (snd (Rectangle_intersect small_EPS square ray_leaving_square blank))"
  by (simp add: Rectangle_intersect_def square_def ray_leaving_square_def small_EPS_def
      populate_def ray_ops float_ops vec3_ops Let_def)

section \<open>Horizontal rays and the ground\<close>

text \<open>
  A horizontal ray from a point above the floor is a miss: the quotient is \<open>-\<infinity>\<close>, which
  is less than \<open>tMin\<close>.
\<close>

lemma Ground_miss_over: "\<not> fst (Ground_intersect floor_plane ray_over_floor blank)"
  by (simp add: Ground_intersect_def floor_plane_def ray_over_floor_def
      populate_def ray_ops float_ops vec_def Let_def)

lemma floor_hit_down: "fst (Ground_intersect floor_plane ray_onto_floor blank)"
  by (simp add: Ground_intersect_def floor_plane_def ray_onto_floor_def
      ray_ops float_ops vec_def Let_def)

text \<open>
  C7. \<open>Ground::intersect\<close> returns true for two horizontal rays: from a point of the
  plane, where the distance is NaN, and from a point below the plane, where the distance
  is \<open>+\<infinity>\<close>. A horizontal ray is not always a miss.
\<close>

theorem Ground_hit_by_horizontal_ray:
  "vz (direction ray_in_floor) = Finite 0
   \<and> fst (Ground_intersect floor_plane ray_in_floor blank)
   \<and> distance (snd (Ground_intersect floor_plane ray_in_floor blank)) = NaN
   \<and> vz (direction ray_under_floor) = Finite 0
   \<and> fst (Ground_intersect floor_plane ray_under_floor blank)
   \<and> distance (snd (Ground_intersect floor_plane ray_under_floor blank)) = PInf"
  by (simp add: Ground_intersect_def floor_plane_def ray_in_floor_def ray_under_floor_def
      populate_def ray_ops float_ops vec_def Let_def)

section \<open>The normal and the type of a hit\<close>

text \<open>
  On a hit of any of the four routines the type of the interaction is GEOMETRY, and the
  normal is what \<^verbatim>\<open>normalized()\<close> makes of the stored normal (triangle, rectangle) or
  of the image of the hit point under the inverse transpose (ellipsoid), and (0,0,1) for
  the ground.
\<close>

lemma hit_is_GEOMETRY:
  "(fst (Triangle_intersect tri r interaction) \<longrightarrow>
      type (snd (Triangle_intersect tri r interaction)) = GEOMETRY
      \<and> normal (snd (Triangle_intersect tri r interaction)) = normalized (tri_normal tri))
   \<and> (fst (Rectangle_intersect EPS rect r interaction) \<longrightarrow>
        type (snd (Rectangle_intersect EPS rect r interaction)) = GEOMETRY
        \<and> normal (snd (Rectangle_intersect EPS rect r interaction))
            = normalized (rect_normal rect))
   \<and> (fst (Ellipsoid_intersect eig e r interaction) \<longrightarrow>
        type (snd (Ellipsoid_intersect eig e r interaction)) = GEOMETRY
        \<and> normal (snd (Ellipsoid_intersect eig e r interaction))
            = normalized (Ellipsoid_normal eig e (Ellipsoid_transformed eig e r)
                            (distance (snd (Ellipsoid_intersect eig e r interaction)))))
   \<and> (fst (Ground_intersect g r interaction) \<longrightarrow>
        type (snd (Ground_intersect g r interaction)) = GEOMETRY
        \<and> normal (snd (Ground_intersect g r interaction)) = Vec3f (lit 0) (lit 0) (lit 1))"
proof (intro conjI impI)
  assume h: "fst (Ellipsoid_intersect eig e r interaction)"
  from Ellipsoid_hit_populates [OF h] obtain t where
    t: "snd (Ellipsoid_intersect eig e r interaction)
         = populate interaction t (ray_at r t)
             (normalized (Ellipsoid_normal eig e (Ellipsoid_transformed eig e r) t))
             (ell_material e)"
    by blast
  show "type (snd (Ellipsoid_intersect eig e r interaction)) = GEOMETRY"
    by (simp add: t populate_fields)
  show "normal (snd (Ellipsoid_intersect eig e r interaction))
            = normalized (Ellipsoid_normal eig e (Ellipsoid_transformed eig e r)
                            (distance (snd (Ellipsoid_intersect eig e r interaction))))"
    by (simp add: t populate_fields)
qed (simp_all add: Triangle_hit_populates Rectangle_hit_populates Ground_hit_populates
      populate_fields)

section \<open>evalRadiance\<close>

text \<open>
  The loop over the lights adds, to each of the two vectors, the terms of the lights
  whose shadow ray is not occluded, in the order of the list.
\<close>

lemma foldl_vpl_step:
  "foldl (vpl_step ext sc r i n) acc vpls =
     (foldl (+) (fst acc) (map (diff_term r i n) (filter (\<lambda>v. \<not> isShadowed sc (shadow_ray ext i v)) vpls)),
      foldl (+) (snd acc) (map (spec_term ext r i n) (filter (\<lambda>v. \<not> isShadowed sc (shadow_ray ext i v)) vpls)))"
  by (induction vpls arbitrary: acc) (simp_all add: vpl_step_def)

text \<open>
  C5. \<open>evalRadiance\<close> returns the colour of the light for an interaction of type LIGHT.
  Otherwise it returns ambient + diffuse + specular, where ambient is the product of the
  ambient reflectance and the ambient light, and where, over the lights that are not
  shadowed, diffuse sums \<open>Diffuse \<odot> color \<times> max(0, normal\<cdot>light_dir) / n\<close> and specular
  sums \<open>Specular \<odot> color \<times> max(0, reflect_dir\<cdot>(-direction))^Shininess / n\<close>, with
  \<open>n\<close> the number of lights and
  \<open>reflect_dir = normalize(2 (normal\<cdot>light_dir) normal - light_dir)\<close>.
\<close>

theorem evalRadiance_sum:
  "evalRadiance ext sc r interaction =
     (if type interaction = LIGHT then light_color sc
      else
        cwiseProduct (Ambient (matmodel interaction)) (ambient_light sc)
        + foldl (+) (Vec3f (lit 0) (lit 0) (lit 0))
            (map (\<lambda>v. sdiv (vscale (cwiseProduct (Diffuse (matmodel interaction)) (vpl_color v))
                                    (std_max (lit 0) (dot (normal interaction) (light_dir interaction v))))
                             (float_of_size (length (light_vpls sc))))
                 (filter (\<lambda>v. \<not> isShadowed sc (shadow_ray ext interaction v)) (light_vpls sc)))
        + foldl (+) (Vec3f (lit 0) (lit 0) (lit 0))
            (map (\<lambda>v. sdiv (vscale (cwiseProduct (Specular (matmodel interaction)) (vpl_color v))
                                    (powf ext
                                       (std_max (lit 0)
                                          (dot (normalized
                                                  (smul (lit 2 * dot (normal interaction) (light_dir interaction v))
                                                        (normal interaction)
                                                   - light_dir interaction v))
                                               (- direction r)))
                                       (Shininess (matmodel interaction))))
                             (float_of_size (length (light_vpls sc))))
                 (filter (\<lambda>v. \<not> isShadowed sc (shadow_ray ext interaction v)) (light_vpls sc))))"
  by (simp add: evalRadiance_def foldl_vpl_step Let_def diff_term_def spec_term_def reflect_dir_def
      cong: map_cong)

text \<open>
  The radiance depends on the occlusion test only through its values on the shadow rays of
  the lights.
\<close>

lemma evalRadiance_isShadowed_cong:
  assumes "\<And>v. v \<in> set (light_vpls sc) \<Longrightarrow> f (shadow_ray ext i v) = isShadowed sc (shadow_ray ext i v)"
  shows "evalRadiance ext (sc\<lparr>isShadowed := f\<rparr>) r i = evalRadiance ext sc r i"
proof -
  have "filter (\<lambda>v. \<not> f (shadow_ray ext i v)) (light_vpls sc)
      = filter (\<lambda>v. \<not> isShadowed sc (shadow_ray ext i v)) (light_vpls sc)"
    using assms by (intro filter_cong) auto
  then show ?thesis
    by (simp add: evalRadiance_def foldl_vpl_step Let_def)
qed

lemma lamp_dir: "light_dir floor_hit lamp = vec 1 0 0"
  by (simp add: light_dir_def floor_hit_def lamp_def float_ops vec3_ops)

lemma lamp_shadow_ray: "shadow_ray plain floor_hit lamp = mk_ray (vec 0 0 0) (vec 1 0 (1 / 100))"
  unfolding shadow_ray_def lamp_dir
  by (simp add: plain_def floor_hit_def float_ops vec3_ops)

text \<open>
  The shadow ray of a virtual point light is constructed from the hit position and from
  the direction to the light plus 0.01 times the normal. When \<open>isShadowed\<close> is true for
  this ray the light changes neither the diffuse nor the specular sum, and no other ray
  is put to \<open>isShadowed\<close>.
\<close>

lemma shadowed_light_adds_nothing:
  "shadow_ray ext interaction vpl
     = Ray ext (position interaction)
               (normalized (vpl_position vpl - position interaction)
                + smul (lit 0.01) (normal interaction))
   \<and> (isShadowed sc (shadow_ray ext interaction vpl) \<longrightarrow>
        vpl_step ext sc r interaction n acc vpl = acc)
   \<and> ((\<forall>v \<in> set (light_vpls sc).
          f (shadow_ray ext interaction v) = isShadowed sc (shadow_ray ext interaction v)) \<longrightarrow>
        evalRadiance ext (sc\<lparr>isShadowed := f\<rparr>) r interaction = evalRadiance ext sc r interaction)"
  by (simp add: shadow_ray_def light_dir_def vpl_step_def evalRadiance_isShadowed_cong)

text \<open>
  C2. For the hit at the centre of the square, with the normal (0,0,1), and the lamp at
  (2,0,0), the shadow ray of \<open>evalRadiance\<close> starts at the hit position (0,0,0), not at
  the position lifted by 0.01 times the normal, (0,0,0.01); its direction is built from
  (1,0,0.01), not from the direction to the light, (1,0,0). This ray hits the square it
  starts on, at distance 0; the ray from the lifted origin towards the light does not.
\<close>

theorem shadow_ray_starts_on_the_surface:
  "shadow_ray plain floor_hit lamp = mk_ray (vec 0 0 0) (vec 1 0 (1 / 100))
   \<and> origin (shadow_ray plain floor_hit lamp) = position floor_hit
   \<and> position floor_hit + smul (lit 0.01) (normal floor_hit) = vec 0 0 (1 / 100)
   \<and> light_dir floor_hit lamp = vec 1 0 0
   \<and> fst (Rectangle_intersect small_EPS square (shadow_ray plain floor_hit lamp) blank)
   \<and> distance (snd (Rectangle_intersect small_EPS square (shadow_ray plain floor_hit lamp) blank))
       = Finite 0
   \<and> \<not> fst (Rectangle_intersect small_EPS square (mk_ray (vec 0 0 (1 / 100)) (vec 1 0 0)) blank)"
  unfolding lamp_shadow_ray lamp_dir
  by (simp add: Rectangle_intersect_def square_def small_EPS_def floor_hit_def populate_def
      ray_ops float_ops vec3_ops Let_def)

section \<open>render\<close>

text \<open>
  The loop over the samples adds the radiance of the samples whose ray hits the scene.
\<close>

lemma foldl_sample_step:
  "foldl (sample_step ext tracer) color pts =
     foldl (+) color
       (map (\<lambda>p. evalRadiance ext (scene tracer) (generateRay (camera tracer) (fst p) (snd p))
                    (snd (scene_intersect (scene tracer) (generateRay (camera tracer) (fst p) (snd p))
                            (new_Interaction ext))))
            (filter (\<lambda>p. fst (scene_intersect (scene tracer)
                                 (generateRay (camera tracer) (fst p) (snd p))
                                 (new_Interaction ext)))
                    pts))"
  by (induction pts arbitrary: color) (simp_all add: sample_step_def Let_def)

text \<open>
  Without a fault, \<open>render\<close> writes every pixel of the image once, in the order of the
  columns, and the value written is the sum over the samples divided by \<open>spp\<^sup>2\<close>.
\<close>

lemma pixel_value_sum:
  "pixel_value ext tracer dx dy =
     sdiv (foldl (+) (Vec3f (lit 0) (lit 0) (lit 0))
             (map (\<lambda>p. evalRadiance ext (scene tracer)
                          (generateRay (camera tracer) (fst p) (snd p))
                          (snd (scene_intersect (scene tracer)
                                  (generateRay (camera tracer) (fst p) (snd p))
                                  (new_Interaction ext))))
                  (filter (\<lambda>p. fst (scene_intersect (scene tracer)
                                       (generateRay (camera tracer) (fst p) (snd p))
                                       (new_Interaction ext)))
                          (generateSuperSamplingPoint (camera tracer) dx dy (spp tracer)))))
          (float_of_int (spp tracer * spp tracer))"
  by (simp add: pixel_value_def foldl_sample_step)


lemma render_pixel_overflow:
  "\<not> int_ok (spp tracer * spp tracer) \<Longrightarrow> render_pixel ext tracer dx dy = Inl SignedOverflow"
  by (auto simp add: render_pixel_def int_ok_def Let_def not_less not_le)









text \<open>
  An image of 1 to 199 columns: the quotient \<open>resolution.x() / 200\<close> is 0 and the
  remainder by it is taken in the first iteration.
\<close>

lemma render_narrow:
  assumes "0 < fst (resolution (camera tracer))" "fst (resolution (camera tracer)) < 200"
  shows "render ext tracer = Inl DivisionByZero"
proof -
  have "[0 .. fst (resolution (camera tracer)) - 1] = 0 # [1 .. fst (resolution (camera tracer)) - 1]"
    using assms by (simp add: upto_rec1)
  moreover have "fst (resolution (camera tracer)) div 200 = 0"
    using assms by simp
  ultimately show ?thesis by (simp add: render_def)
qed

text \<open>
  C6. On an image of 100 by 100 pixels \<open>render\<close> divides by zero before it writes a
  pixel: no pixel of this image is written.
\<close>

theorem render_faults_on_narrow_image:
  "render plain (floor_tracer (100, 100)) = Inl DivisionByZero"
  by (rule render_narrow) (simp_all add: floor_tracer_def top_camera_def)

subsection \<open>A scene without light\<close>














end
